theory Spec2Isabelle
  imports Complex_Main
begin

section \<open>Python values\<close>

text \<open>
  The script \<^verbatim>\<open>create_wallpaper.py\<close> computes with Python integers and Python floats.
  Integers are modelled by \<^typ>\<open>int\<close>.  Floats are modelled by \<^typ>\<open>real\<close>: every
  arithmetic operation of the model is exact, so rounding errors, overflow to infinity and
  NaN are outside the model.  What the model keeps of Python's arithmetic is
  \<^item> that the true division \<^verbatim>\<open>a / b\<close> raises \<^verbatim>\<open>ZeroDivisionError\<close> when \<^verbatim>\<open>b\<close> is zero
    (in HOL \<open>a / 0 = 0\<close>, so every division of the source is guarded in the model);
  \<^item> that \<^verbatim>\<open>round(x)\<close> rounds to the nearest integer and a tie to the even neighbour;
  \<^item> that \<^verbatim>\<open>a // b\<close> on integers is the floor division, which is \<open>div\<close> on \<^typ>\<open>int\<close>;
  \<^item> that \<^verbatim>\<open>max\<close> of an empty sequence raises \<^verbatim>\<open>ValueError\<close>.
\<close>

datatype py_error = ZeroDivisionError | ValueError | OSError

definition py_round :: "real \<Rightarrow> int" where
  "py_round x =
     (let f = \<lfloor>x\<rfloor>; d = x - of_int f
      in if d < 1 / 2 then f
         else if 1 / 2 < d then f + 1
         else if even f then f else f + 1)"

definition py_max :: "'a::linorder list \<Rightarrow> py_error + 'a" where
  "py_max xs = (case xs of [] \<Rightarrow> Inl ValueError | y # ys \<Rightarrow> Inr (fold max ys y))"

text \<open>
  A \<^verbatim>\<open>for\<close> loop whose body may raise: the first exception ends the loop, otherwise
  the results of the body are collected in order.
\<close>

fun for_each :: "('a \<Rightarrow> py_error + 'b) \<Rightarrow> 'a list \<Rightarrow> py_error + 'b list" where
  "for_each f [] = Inr []"
| "for_each f (x # xs) =
     (case f x of
        Inl e \<Rightarrow> Inl e
      | Inr y \<Rightarrow> (case for_each f xs of Inl e \<Rightarrow> Inl e | Inr ys \<Rightarrow> Inr (y # ys)))"

section \<open>The monitor configuration\<close>

text \<open>
  One entry of the list \<^verbatim>\<open>monitors\<close> is a dictionary with seven configured keys.  The
  script adds the keys \<^verbatim>\<open>width_in\<close>, \<^verbatim>\<open>height_in\<close> in its first loop and
  \<^verbatim>\<open>width_scaled\<close>, \<^verbatim>\<open>height_scaled\<close> in its second loop; the model extends the record
  in the same two steps.
\<close>

record monitor =
  width :: int
  height :: int
  scaling :: real
  size_in :: real
  aspect_w :: int
  aspect_h :: int
  offset_bottom :: real

record monitor_in = monitor +
  width_in :: real
  height_in :: real

record monitor_px = monitor_in +
  width_scaled :: int
  height_scaled :: int

text \<open>Lines 106 to 109: the physical size of one monitor in inches.\<close>

definition physical_size :: "monitor \<Rightarrow> py_error + monitor_in" where
  "physical_size m =
     (let aspect_diagonal = sqrt (of_int ((aspect_w m)\<^sup>2 + (aspect_h m)\<^sup>2))
      in if aspect_diagonal = 0 then Inl ZeroDivisionError
         else Inr (monitor.extend m
                (monitor_in.fields
                   (size_in m * of_int (aspect_w m) / aspect_diagonal)
                   (size_in m * of_int (aspect_h m) / aspect_diagonal))))"

text \<open>Lines 121 to 123: the pixel size a monitor shows under its scaling factor.\<close>

definition scaled_size :: "monitor_in \<Rightarrow> py_error + monitor_px" where
  "scaled_size m =
     (if scaling m = 0 then Inl ZeroDivisionError
      else Inr (monitor_in.extend m
             (monitor_px.fields
                (py_round (of_int (width m) / scaling m))
                (py_round (of_int (height m) / scaling m)))))"

section \<open>The layout\<close>

text \<open>
  The values that lines 105 to 127 compute before the image is opened: the monitors with
  their derived keys, the physical extent of the layout and the size of the output canvas.
\<close>

record layout =
  monitors :: "monitor_px list"
  total_width_in :: real
  max_height_in :: real
  total_output_width :: int
  output_height :: int

definition compute_layout :: "monitor list \<Rightarrow> real list \<Rightarrow> py_error + layout" where
  "compute_layout ms gaps_in =
     (case for_each physical_size ms of
        Inl e \<Rightarrow> Inl e
      | Inr ms1 \<Rightarrow>
          let total = sum_list (map width_in ms1) + sum_list gaps_in
          in (case py_max (map (\<lambda>m. height_in m + offset_bottom m) ms1) of
                Inl e \<Rightarrow> Inl e
              | Inr max_h \<Rightarrow>
                  (case for_each scaled_size ms1 of
                     Inl e \<Rightarrow> Inl e
                   | Inr ms2 \<Rightarrow>
                       (case py_max (map height_scaled ms2) of
                          Inl e \<Rightarrow> Inl e
                        | Inr out_h \<Rightarrow>
                            Inr \<lparr>monitors = ms2,
                                 total_width_in = total,
                                 max_height_in = max_h,
                                 total_output_width = sum_list (map width_scaled ms2),
                                 output_height = out_h\<rparr>))))"

section \<open>Cropping the input image to the layout's aspect ratio\<close>

text \<open>
  A crop box is \<open>(left, upper, right, lower)\<close>.  The image library's \<^verbatim>\<open>crop\<close> returns
  an image of \<open>right - left\<close> by \<open>lower - upper\<close> pixels; the script reads that size back in
  line 166.
\<close>

type_synonym box = "int \<times> int \<times> int \<times> int"

fun box_size :: "box \<Rightarrow> int \<times> int" where
  "box_size (left, upper, right, lower) = (right - left, lower - upper)"

text \<open>Lines 139 to 159.\<close>

definition crop_to_layout :: "layout \<Rightarrow> int \<Rightarrow> int \<Rightarrow> py_error + box" where
  "crop_to_layout L input_w input_h =
     (if input_h = 0 then Inl ZeroDivisionError
      else if max_height_in L = 0 then Inl ZeroDivisionError
      else
        let input_aspect = of_int input_w / of_int input_h;
            layout_aspect = total_width_in L / max_height_in L
        in if layout_aspect < input_aspect then
             let new_input_w = py_round (of_int input_h * layout_aspect);
                 left = (input_w - new_input_w) div 2
             in Inr (left, 0, left + new_input_w, input_h)
           else if input_aspect < layout_aspect then
             if layout_aspect = 0 then Inl ZeroDivisionError
             else
               let new_input_h = py_round (of_int input_w / layout_aspect);
                   top = (input_h - new_input_h) div 2
               in Inr (0, top, input_w, top + new_input_h)
           else Inr (0, 0, input_w, input_h))"

section \<open>The main loop\<close>

text \<open>
  The local variables of one pass through the loop of lines 177 to 217, with the values of
  \<^verbatim>\<open>current_x\<close> and \<^verbatim>\<open>running_inch_x\<close> on entry to the pass.
\<close>

record slice =
  running_inch_x :: real
  current_x :: int
  left_frac :: real
  right_frac :: real
  crop_left :: int
  crop_right :: int
  top_frac :: real
  bottom_frac :: real
  crop_top :: int
  crop_bottom :: int
  resized_to :: "int \<times> int"
  y_offset :: int

text \<open>Lines 180 to 208: the body of the loop up to the paste.\<close>

definition sample_region ::
    "layout \<Rightarrow> int \<Rightarrow> int \<Rightarrow> int \<Rightarrow> real \<Rightarrow> monitor_px \<Rightarrow> py_error + slice" where
  "sample_region L input_w input_h cur_x run_x m =
     (if total_width_in L = 0 then Inl ZeroDivisionError
      else if max_height_in L = 0 then Inl ZeroDivisionError
      else
        let l_frac = run_x / total_width_in L;
            r_frac = (run_x + width_in m) / total_width_in L;
            offset_frac = offset_bottom m / max_height_in L;
            height_frac = height_in m / max_height_in L;
            b_frac = 1 - offset_frac;
            t_frac = b_frac - height_frac
        in Inr \<lparr>running_inch_x = run_x,
                current_x = cur_x,
                left_frac = l_frac,
                right_frac = r_frac,
                crop_left = py_round (l_frac * of_int input_w),
                crop_right = py_round (r_frac * of_int input_w),
                top_frac = t_frac,
                bottom_frac = b_frac,
                crop_top = py_round (t_frac * of_int input_h),
                crop_bottom = py_round (b_frac * of_int input_h),
                resized_to = (width_scaled m, height_scaled m),
                y_offset = output_height L - height_scaled m\<rparr>)"

text \<open>
  Lines 177 to 217: the loop over \<^verbatim>\<open>enumerate(monitors)\<close>.  The result is the list of
  the passes that were completed and the exception that ended the loop, if any.
\<close>

fun monitor_loop ::
    "layout \<Rightarrow> real list \<Rightarrow> int \<Rightarrow> int \<Rightarrow> nat \<Rightarrow> int \<Rightarrow> real \<Rightarrow> monitor_px list
       \<Rightarrow> slice list \<times> py_error option" where
  "monitor_loop L gaps_in input_w input_h i cur_x run_x [] = ([], None)"
| "monitor_loop L gaps_in input_w input_h i cur_x run_x (m # ms) =
     (case sample_region L input_w input_h cur_x run_x m of
        Inl e \<Rightarrow> ([], Some e)
      | Inr s \<Rightarrow>
          let cur_x' = cur_x + width_scaled m;
              run_x' = run_x + width_in m;
              run_x'' = (if i < length gaps_in then run_x' + gaps_in ! i else run_x');
              (ss, e) = monitor_loop L gaps_in input_w input_h (Suc i) cur_x' run_x'' ms
          in (s # ss, e))"

section \<open>The program\<close>

text \<open>
  The calls of the image library, in the order the script makes them.  The library is not
  part of the repository: the model records every call with its arguments and lets it
  succeed, except \<^verbatim>\<open>Image.open\<close>, which raises when there is no readable image at the
  input path.  The informational \<^verbatim>\<open>print\<close> calls are left out; the message printed
  before \<^verbatim>\<open>sys.exit(1)\<close> is kept in the outcome.
\<close>

datatype io_event =
    Image_open
  | Image_crop box
  | Image_new int int
  | Image_resize "int \<times> int"
  | Image_paste int int
  | Image_save

datatype outcome =
    Exited int string
  | Raised py_error
  | Finished

definition slice_events :: "slice \<Rightarrow> io_event list" where
  "slice_events s =
     [Image_crop (crop_left s, crop_top s, crop_right s, crop_bottom s),
      Image_resize (resized_to s),
      Image_paste (current_x s) (y_offset s)]"

text \<open>
  \<open>main argc monitors gaps_in img\<close>: \<open>argc\<close> is \<^verbatim>\<open>len(sys.argv)\<close>, \<open>img\<close> is the
  size of the image at the input path, or \<open>None\<close> when it cannot be opened.
\<close>

definition main ::
    "nat \<Rightarrow> monitor list \<Rightarrow> real list \<Rightarrow> (int \<times> int) option \<Rightarrow> outcome \<times> io_event list" where
  "main argc ms gaps_in img =
     (if argc < 3 then
        (Exited 1 ''Usage: python create_wallpaper.py <input_image> <output_image>'', [])
      else if int (length gaps_in) \<noteq> int (length ms) - 1 then
        (Exited 1 ''Error: gaps_in must have one less element than monitors.'', [])
      else
        case compute_layout ms gaps_in of
          Inl e \<Rightarrow> (Raised e, [])
        | Inr L \<Rightarrow>
            (case img of
               None \<Rightarrow> (Raised OSError, [Image_open])
             | Some (input_w, input_h) \<Rightarrow>
                 (case crop_to_layout L input_w input_h of
                    Inl e \<Rightarrow> (Raised e, [Image_open])
                  | Inr crop_box \<Rightarrow>
                      let (w, h) = box_size crop_box;
                          before = [Image_open, Image_crop crop_box,
                                    Image_new (total_output_width L) (output_height L)];
                          (ss, e) = monitor_loop L gaps_in w h 0 0 0 (monitors L)
                      in (case e of
                            Some err \<Rightarrow> (Raised err, before @ concat (map slice_events ss))
                          | None \<Rightarrow>
                              (Finished,
                               before @ concat (map slice_events ss) @ [Image_save])))))"


section \<open>A configuration to run the model on\<close>

text \<open>
  Two monitors, left to right: a portrait one of 3 by 4 inches (diagonal 5, aspect 3:4)
  raised by one inch, and a landscape one of 8 by 6 inches (diagonal 10, aspect 4:3) on
  the baseline.  Both are 1203 pixels wide at scaling 2, so each scaled width is the tie
  601.5.
\<close>

definition two_monitors :: "monitor list" where
  "two_monitors =
     [\<lparr>width = 1203, height = 1600, scaling = 2, size_in = 5,
       aspect_w = 3, aspect_h = 4, offset_bottom = 1\<rparr>,
      \<lparr>width = 1203, height = 1000, scaling = 2, size_in = 10,
       aspect_w = 4, aspect_h = 3, offset_bottom = 0\<rparr>]"



section \<open>Basic facts about the model\<close>

lemma for_each_Inr:
  "for_each f xs = Inr ys \<Longrightarrow> list_all2 (\<lambda>x y. f x = Inr y) xs ys"
  by (induction xs arbitrary: ys) (auto split: sum.splits)



























section \<open>The model on the two monitors\<close>






section \<open>The vertical sampling range\<close>



section \<open>The physical size of a monitor\<close>



section \<open>The size of the output canvas\<close>



section \<open>The crop to the layout's aspect ratio\<close>



section \<open>Adjacent monitors\<close>




section \<open>Where the slices are pasted\<close>





section \<open>Monitors with values that are not positive\<close>




section \<open>A layout without extent\<close>




section \<open>The gap count check\<close>

text \<open>
  Claim C9.  Whenever the number of gaps differs from the number of monitors minus one, the
  program fails before any call of the image library: it exits with status 1 and a message,
  the image is not opened and nothing is written.  The message is the one about
  \<^verbatim>\<open>gaps_in\<close> as soon as the two command line arguments are given; with fewer arguments
  the program has already exited with the usage message, status 1 as well.
\<close>

theorem gap_count_mismatch_exits:
  assumes "int (length gaps_in) \<noteq> int (length ms) - 1"
  shows "snd (main argc ms gaps_in img) = [] \<and>
         (\<exists>msg. fst (main argc ms gaps_in img) = Exited 1 msg) \<and>
         (3 \<le> argc \<longrightarrow>
            fst (main argc ms gaps_in img) =
              Exited 1 ''Error: gaps_in must have one less element than monitors.'')"
  using assms by (simp add: main_def)

theorem gap_count_mismatch_exits_witness:
  "int (length [1 / 2, 1 / 4 :: real]) \<noteq> int (length two_monitors) - 1 \<and>
   main 3 two_monitors [1 / 2, 1 / 4] (Some (300, 100)) =
     (Exited 1 ''Error: gaps_in must have one less element than monitors.'', [])"
  using gap_count_mismatch_exits [of "[1 / 2, 1 / 4]" two_monitors 3 "Some (300, 100)"]
  by (simp add: prod_eq_iff two_monitors_def)

section \<open>The sample rectangle lies in the unit square\<close>



end
